theory Spec2Isabelle
  imports Complex_Main "HOL-Library.Word"
begin

unbundle bit_operations_syntax

section \<open>JavaScript values and built-ins used by App.tsx\<close>

text \<open>
  A JavaScript string is modelled as a \<open>string\<close>: one \<open>char\<close> per UTF-16 code unit, for
  code units below 256 (\<open>charCodeAt\<close> is \<open>of_char\<close>). A JavaScript number that holds an
  integer is an \<open>int\<close>; every intermediate value of the arithmetic below stays far
  under \<open>2 ^ 53\<close>, where doubles are exact. A thrown value is a \<open>js_error\<close>, and code
  that can throw returns \<open>js_error + 'a\<close> with \<open>Inl\<close> for the throw.
\<close>

datatype js_error = TypeError string | URIError string | Error string

definition String_startsWith :: "string \<Rightarrow> string \<Rightarrow> bool" where
  "String_startsWith s p = (take (length p) s = p)"

definition String_includes :: "string \<Rightarrow> char \<Rightarrow> bool" where
  "String_includes s c = (c \<in> set s)"

text \<open>\<open>s.split(sep)\<close> for a one-character separator: all pieces, \<open>['']\<close> for the empty string.\<close>

fun String_split :: "char \<Rightarrow> string \<Rightarrow> string list" where
  "String_split sep [] = [[]]"
| "String_split sep (c # cs) =
     (if c = sep then [] # String_split sep cs
      else (case String_split sep cs of
              p # ps \<Rightarrow> (c # p) # ps
            | [] \<Rightarrow> [[c]]))"

text \<open>\<open>s.split(sep, limit)\<close>: the first \<open>limit\<close> pieces of the full split; the rest is dropped.\<close>

definition String_split_limit :: "char \<Rightarrow> nat \<Rightarrow> string \<Rightarrow> string list" where
  "String_split_limit sep limit s = take limit (String_split sep s)"

definition String_slice :: "nat \<Rightarrow> string \<Rightarrow> string" where
  "String_slice start s = drop start s"

definition String_padStart :: "nat \<Rightarrow> char \<Rightarrow> string \<Rightarrow> string" where
  "String_padStart targetLength fill s = replicate (targetLength - length s) fill @ s"

definition digit_char :: "nat \<Rightarrow> char" where
  "digit_char d = ''0123456789'' ! d"

text \<open>The decimal digits of an integer that is not negative, most significant first.\<close>

function decimal :: "int \<Rightarrow> string" where
  "decimal n =
     (if n < 10 then [digit_char (nat n)]
      else decimal (n div 10) @ [digit_char (nat (n mod 10))])"
  by pat_completeness auto
termination
  by (relation "measure nat") auto

declare decimal.simps [simp del]

text \<open>\<open>Number.prototype.toString()\<close> on an integer of magnitude below \<open>10 ^ 21\<close>.\<close>

definition Number_toString :: "int \<Rightarrow> string" where
  "Number_toString v = (if v < 0 then CHR ''-'' # decimal (- v) else decimal v)"

text \<open>
  The bitwise operators convert their operands with ToInt32 (the value modulo \<open>2 ^ 32\<close>,
  read as two's complement) and return a signed 32-bit result.
\<close>

definition ToInt32 :: "int \<Rightarrow> 32 word" where
  "ToInt32 v = word_of_int v"

definition js_shl :: "int \<Rightarrow> nat \<Rightarrow> int" where
  "js_shl a n = sint (push_bit n (ToInt32 a))"

definition js_and :: "int \<Rightarrow> int \<Rightarrow> int" where
  "js_and a b = sint (ToInt32 a AND ToInt32 b)"

text \<open>The remainder operator \<open>%\<close> truncates: the result has the sign of the dividend.\<close>

definition js_rem :: "int \<Rightarrow> int \<Rightarrow> int" where
  "js_rem a b = sgn a * (\<bar>a\<bar> mod \<bar>b\<bar>)"

definition is_decimal_digit :: "char \<Rightarrow> bool" where
  "is_decimal_digit c = (c \<in> set ''0123456789'')"


section \<open>generateTOTP\<close>

text \<open>
  The jsotp package is a dependency of the application, not part of it. It enters the
  model as a parameter: \<open>lib secret now\<close> is the outcome of
  \<open>jsotp.TOTP(secret).now()\<close> when the clock reads \<open>now\<close> milliseconds, either the
  returned string or the thrown error. \<open>generateTOTP\<close> has the secret as its only
  argument in the source; the clock is read inside (by the library, and by
  \<open>Date.now()\<close> in the catch block), so the reading is an input of the model. Both reads
  happen within one synchronous call and are modelled as one reading.
\<close>

type_synonym jsotp = "string \<Rightarrow> int \<Rightarrow> js_error + string"

text \<open>The reducer of the catch block: \<open>a = ((a << 5) - a) + b.charCodeAt(0); return a & a\<close>.\<close>

definition hash_step :: "int \<Rightarrow> char \<Rightarrow> int" where
  "hash_step a b = (let a' = (js_shl a 5 - a) + of_char b in js_and a' a')"

text \<open>
  The catch block: the time step is \<open>Math.floor(Date.now() / 30000)\<close>, the hash is the
  reduction of the secret's characters from the time step, and the result is
  \<open>Math.abs(hash % 1000000).toString().padStart(6, '0')\<close>.
\<close>

definition fallback_hash :: "int \<Rightarrow> string \<Rightarrow> int" where
  "fallback_hash now s = foldl hash_step (now div 30000) s"

definition fallback_code :: "int \<Rightarrow> string \<Rightarrow> string" where
  "fallback_code now s =
     String_padStart 6 CHR ''0'' (Number_toString \<bar>js_rem (fallback_hash now s) 1000000\<bar>)"

definition generateTOTP :: "jsotp \<Rightarrow> int \<Rightarrow> string \<Rightarrow> js_error + string" where
  "generateTOTP lib now s =
     (case lib s now of
        Inr code \<Rightarrow> Inr code
      | Inl error \<Rightarrow> Inr (fallback_code now s))"

text \<open>A library run that throws on every secret: the case the catch block is written for.\<close>

definition jsotp_throwing :: jsotp where
  "jsotp_throwing s now = Inl (Error ''jsotp failed'')"


section \<open>The platform: URL and decodeURIComponent\<close>

text \<open>
  \<open>handleQRScan\<close> reads a scanned string through three platform services:
  \<open>new URL(s)\<close>, of which it uses \<open>pathname\<close> and \<open>searchParams.get\<close>, and
  \<open>decodeURIComponent\<close>. The first and the last can throw. The function is modelled over
  any platform; \<open>whatwg\<close> below is one platform, used to run it on concrete strings.
\<close>

record URL =
  pathname :: string
  searchParams :: "(string \<times> string) list"

text \<open>\<open>searchParams.get(name)\<close>: the value of the first pair with that name, or null.\<close>

definition URLSearchParams_get :: "(string \<times> string) list \<Rightarrow> string \<Rightarrow> string option" where
  "URLSearchParams_get ps name = map_of ps name"

record platform =
  new_URL :: "string \<Rightarrow> js_error + URL"
  decodeURIComponent :: "string \<Rightarrow> js_error + string"

definition hex_value :: "char \<Rightarrow> nat option" where
  "hex_value c =
     (let n = (of_char c :: nat) in
      if 48 \<le> n \<and> n \<le> 57 then Some (n - 48)
      else if 65 \<le> n \<and> n \<le> 70 then Some (n - 55)
      else if 97 \<le> n \<and> n \<le> 102 then Some (n - 87)
      else None)"

text \<open>
  \<open>decodeURIComponent\<close> on strings whose escapes stay within ASCII: an escape
  \<open>%XY\<close> below \<open>%80\<close> is replaced by its character, a \<open>%\<close> that does not start an
  escape throws URIError, every other character is kept. An escape from \<open>%80\<close> on starts
  a UTF-8 sequence, which this model does not decode: it answers
  \<open>Error ''not modelled''\<close> there, and no statement below runs it on such a string.
\<close>

fun decodeURIComponent_ascii :: "string \<Rightarrow> js_error + string" where
  "decodeURIComponent_ascii [] = Inr []"
| "decodeURIComponent_ascii (c # cs) =
     (if c = CHR ''%'' then
        (case cs of
           h # l # rest \<Rightarrow>
             (case (hex_value h, hex_value l) of
                (Some a, Some b) \<Rightarrow>
                  (if a < 8 then
                     (case decodeURIComponent_ascii rest of
                        Inl e \<Rightarrow> Inl e
                      | Inr t \<Rightarrow> Inr (char_of (16 * a + b) # t))
                   else Inl (Error ''not modelled''))
              | _ \<Rightarrow> Inl (URIError ''URI malformed''))
         | _ \<Rightarrow> Inl (URIError ''URI malformed''))
      else (case decodeURIComponent_ascii cs of
              Inl e \<Rightarrow> Inl e
            | Inr t \<Rightarrow> Inr (c # t)))"

text \<open>
  The percent-decoding of the query parser is lenient: a \<open>%\<close> that does not start an
  escape is kept. \<open>None\<close> marks an escape from \<open>%80\<close> on (not modelled, as above).
\<close>

fun percent_decode :: "string \<Rightarrow> string option" where
  "percent_decode [] = Some []"
| "percent_decode (c # cs) =
     (if c = CHR ''%'' then
        (case cs of
           h # l # rest \<Rightarrow>
             (case (hex_value h, hex_value l) of
                (Some a, Some b) \<Rightarrow>
                  (if a < 8 then map_option ((#) (char_of (16 * a + b))) (percent_decode rest)
                   else None)
              | _ \<Rightarrow> map_option ((#) c) (percent_decode cs))
         | _ \<Rightarrow> map_option ((#) c) (percent_decode cs))
      else map_option ((#) c) (percent_decode cs))"

text \<open>
  The application/x-www-form-urlencoded parser behind \<open>searchParams\<close>: the query is split
  at \<open>&\<close>, empty pieces are skipped, each piece is split at its first \<open>=\<close> (the value is
  empty without one), \<open>+\<close> becomes a space, and name and value are percent-decoded.
\<close>

definition plus_to_space :: "char \<Rightarrow> char" where
  "plus_to_space c = (if c = CHR ''+'' then CHR '' '' else c)"

definition urlencoded_pair :: "string \<Rightarrow> (string \<times> string) option" where
  "urlencoded_pair piece =
     (let name = takeWhile (\<lambda>c. c \<noteq> CHR ''='') piece;
          val = drop 1 (dropWhile (\<lambda>c. c \<noteq> CHR ''='') piece)
      in case (percent_decode (map plus_to_space name), percent_decode (map plus_to_space val)) of
           (Some n, Some v) \<Rightarrow> Some (n, v)
         | _ \<Rightarrow> None)"

definition parse_urlencoded :: "string \<Rightarrow> (string \<times> string) list option" where
  "parse_urlencoded query =
     those (map urlencoded_pair (filter (\<lambda>piece. piece \<noteq> []) (String_split CHR ''&'' query)))"

text \<open>
  Path segments: a segment \<open>.\<close> or \<open>..\<close> (also written with \<open>%2e\<close>) is not kept; \<open>..\<close>
  removes the segment before it, and either one leaves an empty segment when it ends
  the path.
\<close>

fun undot :: "string \<Rightarrow> string" where
  "undot (a # b # c # r) =
     (if a = CHR ''%'' \<and> b = CHR ''2'' \<and> (c = CHR ''e'' \<or> c = CHR ''E'')
      then CHR ''.'' # undot r else a # undot (b # c # r))"
| "undot s = s"

fun path_segments :: "string list \<Rightarrow> string list \<Rightarrow> string list" where
  "path_segments path [] = path"
| "path_segments path (seg # rest) =
     (if undot seg = ''..'' then
        path_segments (if rest = [] then butlast path @ [[]] else butlast path) rest
      else if undot seg = ''.'' then
        path_segments (if rest = [] then path @ [[]] else path) rest
      else path_segments (path @ [seg]) rest)"

fun String_join :: "string \<Rightarrow> string list \<Rightarrow> string" where
  "String_join sep [] = []"
| "String_join sep [a] = a"
| "String_join sep (a # b # r) = a @ sep @ String_join sep (b # r)"

text \<open>
  The characters of the model: the ASCII URL code points (the apostrophe left out),
  and \<open>%\<close> and \<open>#\<close>. None of them is rewritten by the URL parser, in the path or in
  the query.
\<close>

definition url_char :: "char \<Rightarrow> bool" where
  "url_char c =
     (let n = (of_char c :: nat) in
      (48 \<le> n \<and> n \<le> 57) \<or> (65 \<le> n \<and> n \<le> 90) \<or> (97 \<le> n \<and> n \<le> 122) \<or>
      c \<in> set ''!$&()*+,-./:;=?@_~%#'')"

text \<open>
  \<open>new URL(s)\<close> after the WHATWG URL standard, for the strings \<open>handleQRScan\<close> passes
  to it and the model covers: \<open>s\<close> begins \<open>otpauth://totp/\<close> (scheme \<open>otpauth\<close>, host
  \<open>totp\<close>) and is made of the characters above. The path runs to the first \<open>?\<close> or
  \<open>#\<close>, the query from a \<open>?\<close> to the first \<open>#\<close>. Any other argument is outside the
  model, which answers \<open>Error ''not modelled''\<close>; no statement below runs it there.
\<close>

definition new_URL_whatwg :: "string \<Rightarrow> js_error + URL" where
  "new_URL_whatwg s =
     (if String_startsWith s ''otpauth://totp/'' \<and> list_all url_char s then
        (let rest = drop 14 s;
             in_path = (\<lambda>c. c \<noteq> CHR ''?'' \<and> c \<noteq> CHR ''#'');
             path = takeWhile in_path rest;
             query = (case dropWhile in_path rest of
                        c # q \<Rightarrow> if c = CHR ''?'' then takeWhile (\<lambda>c. c \<noteq> CHR ''#'') q else []
                      | [] \<Rightarrow> [])
         in case parse_urlencoded query of
              None \<Rightarrow> Inl (Error ''not modelled'')
            | Some ps \<Rightarrow>
                Inr \<lparr>pathname =
                       CHR ''/'' # String_join ''/'' (path_segments [] (String_split CHR ''/'' (drop 1 path))),
                     searchParams = ps\<rparr>)
      else Inl (Error ''not modelled''))"

definition whatwg :: platform where
  "whatwg = \<lparr>new_URL = new_URL_whatwg, decodeURIComponent = decodeURIComponent_ascii\<rparr>"


section \<open>handleQRScan\<close>

text \<open>
  The fields \<open>id\<close>, \<open>x\<close>, \<open>y\<close>, \<open>width\<close> and \<open>height\<close> of the source's Account are
  \<open>account_id\<close>, \<open>tile_x\<close>, \<open>tile_y\<close>, \<open>tile_width\<close> and \<open>tile_height\<close> here. The
  geometry is a \<open>real\<close>: no statement below depends on its rounding.
\<close>

record Account =
  account_id :: string
  issuer :: string
  accountName :: string
  secret :: string
  tile_x :: real
  tile_y :: real
  tile_width :: real
  tile_height :: real

text \<open>
  The component state that \<open>handleQRScan\<close> touches, and the dialogs it raises:
  \<open>alerts\<close> logs each \<open>Alert.alert(title, message)\<close> in order. The button animation
  and \<open>console.error\<close> change nothing that the function or its callers read.
\<close>

record App =
  accounts :: "Account list"
  showCamera :: bool
  alerts :: "(string \<times> string) list"

definition Alert_alert :: "string \<Rightarrow> string \<Rightarrow> App \<Rightarrow> App" where
  "Alert_alert title message st = st\<lparr>alerts := alerts st @ [(title, message)]\<rparr>"

text \<open>A value that may be undefined or null is an option; \<open>!v\<close> holds for those and for \<open>''\<close>.\<close>

definition falsy :: "string option \<Rightarrow> bool" where
  "falsy v = (v = None \<or> v = Some [])"

text \<open>\<open>v || d\<close>, and \<open>if (!v) v = d\<close>.\<close>

definition or_else :: "string option \<Rightarrow> string option \<Rightarrow> string option" where
  "or_else v d = (if falsy v then d else v)"

text \<open>An array element read by destructuring: undefined past the end.\<close>

definition element :: "'a list \<Rightarrow> nat \<Rightarrow> 'a option" where
  "element xs i = (if i < length xs then Some (xs ! i) else None)"

text \<open>
  Lines 252 to 265: issuer and account name from the \<open>issuer\<close> parameter and the label.
\<close>

definition resolve_names :: "string option \<Rightarrow> string \<Rightarrow> string \<times> string" where
  "resolve_names issuerParam label =
     (let issuer0 = or_else issuerParam (Some []);
          (issuer1, accountName1) =
            (if String_includes label CHR '':'' then
               (let parts = String_split_limit CHR '':'' 2 label;
                    labelIssuer = element parts 0;
                    labelAccount = element parts 1
                in (or_else issuer0 labelIssuer, labelAccount))
             else (or_else issuer0 (Some label), Some label));
          issuer2 = or_else issuer1 (Some ''Account'');
          accountName2 = or_else accountName1 (Some ''Unknown'')
      in (case issuer2 of Some i \<Rightarrow> i | None \<Rightarrow> [],
          case accountName2 of Some a \<Rightarrow> a | None \<Rightarrow> []))"

text \<open>
  The body of the try block. \<open>now\<close> is the reading of \<open>Date.now()\<close>, \<open>rx\<close> and \<open>ry\<close>
  are the two draws of \<open>Math.random()\<close>.
\<close>

definition scan_try :: "platform \<Rightarrow> int \<Rightarrow> real \<Rightarrow> real \<Rightarrow> string \<Rightarrow> App \<Rightarrow> js_error + App" where
  "scan_try rt now rx ry qrData st =
     (case new_URL rt qrData of
        Inl e \<Rightarrow> Inl e
      | Inr url \<Rightarrow>
          (case decodeURIComponent rt (pathname url) of
             Inl e \<Rightarrow> Inl e
           | Inr decoded \<Rightarrow>
               (let label = String_slice 1 decoded;
                    names = resolve_names (URLSearchParams_get (searchParams url) ''issuer'') label;
                    secretParam = URLSearchParams_get (searchParams url) ''secret''
                in case secretParam of
                     None \<Rightarrow> Inr (Alert_alert ''Error'' ''QR code missing secret key'' st)
                   | Some sec \<Rightarrow>
                       if sec = [] then Inr (Alert_alert ''Error'' ''QR code missing secret key'' st)
                       else Inr (st\<lparr>accounts := accounts st @
                                   [\<lparr>account_id = Number_toString now,
                                     issuer = fst names,
                                     accountName = snd names,
                                     secret = sec,
                                     tile_x = rx * 150 + 50,
                                     tile_y = ry * 400 + 150,
                                     tile_width = 180,
                                     tile_height = 100\<rparr>],
                                 showCamera := False\<rparr>))))"

definition handleQRScan ::
  "platform \<Rightarrow> int \<Rightarrow> real \<Rightarrow> real \<Rightarrow> string option \<Rightarrow> App \<Rightarrow> App" where
  "handleQRScan rt now rx ry codeStringValue st =
     (case codeStringValue of
        None \<Rightarrow> st
      | Some qrData \<Rightarrow>
          if qrData = [] then st
          else if String_startsWith qrData ''otpauth://totp/'' then
            (case scan_try rt now rx ry qrData st of
               Inr st' \<Rightarrow> st'
             | Inl error \<Rightarrow> Alert_alert ''Error'' ''Invalid QR code format'' st)
          else Alert_alert ''Invalid QR Code'' ''Please scan a valid authenticator QR code'' st)"

text \<open>The application's initial state, with the camera opened for a scan.\<close>

definition scanning :: App where
  "scanning = \<lparr>accounts = [], showCamera = True, alerts = []\<rparr>"


section \<open>getTOTPTimeLeft\<close>

text \<open>\<open>30 - (Math.floor(Date.now() / 1000) % 30)\<close>, with \<open>now\<close> the reading of \<open>Date.now()\<close>.\<close>

definition getTOTPTimeLeft :: "int \<Rightarrow> int" where
  "getTOTPTimeLeft now = 30 - js_rem (now div 1000) 30"


section \<open>The vocabulary of the claims\<close>

text \<open>
  What the specification calls a valid Base32 secret: a non-empty run of letters and of
  the digits 2 to 7 (RFC 4648, either case), then optional \<open>=\<close> padding. The source has
  no such check; the predicate only states what the claims ask of a secret.
\<close>

definition base32_char :: "char \<Rightarrow> bool" where
  "base32_char c =
     (let n = (of_char c :: nat) in
      (65 \<le> n \<and> n \<le> 90) \<or> (97 \<le> n \<and> n \<le> 122) \<or> (50 \<le> n \<and> n \<le> 55))"

definition valid_Base32 :: "string \<Rightarrow> bool" where
  "valid_Base32 s =
     (let body = takeWhile (\<lambda>c. c \<noteq> CHR ''='') s;
          pad = dropWhile (\<lambda>c. c \<noteq> CHR ''='') s
      in body \<noteq> [] \<and> list_all base32_char body \<and> list_all (\<lambda>c. c = CHR ''='') pad)"


section \<open>Properties of the built-ins\<close>

lemma digit_char_is_digit: "d < 10 \<Longrightarrow> is_decimal_digit (digit_char d)"
proof -
  assume "d < 10"
  then have "d \<in> {0, 1, 2, 3, 4, 5, 6, 7, 8, 9}" by auto
  then show ?thesis
    by (auto simp: is_decimal_digit_def digit_char_def)
qed

lemma decimal_digits: "0 \<le> n \<Longrightarrow> list_all is_decimal_digit (decimal n)"
proof (induction n rule: decimal.induct)
  case (1 n)
  show ?case
  proof (cases "n < 10")
    case True
    with "1.prems" have "nat n < 10" by simp
    then show ?thesis
      using True by (simp add: decimal.simps [of n] digit_char_is_digit)
  next
    case False
    then have "0 \<le> n div 10" by simp
    with "1.IH" False have "list_all is_decimal_digit (decimal (n div 10))" by simp
    moreover have "nat (n mod 10) < 10" by simp
    ultimately show ?thesis
      using False by (simp add: decimal.simps [of n] digit_char_is_digit)
  qed
qed

lemma decimal_length: "0 \<le> n \<Longrightarrow> n < 10 ^ Suc k \<Longrightarrow> length (decimal n) \<le> Suc k"
proof (induction k arbitrary: n)
  case 0
  then show ?case by (simp add: decimal.simps [of n])
next
  case (Suc k)
  show ?case
  proof (cases "n < 10")
    case True
    then show ?thesis by (simp add: decimal.simps [of n])
  next
    case False
    have "n div 10 < 10 ^ Suc k"
      using Suc.prems by (simp add: div_less_iff_less_mult)
    moreover have "0 \<le> n div 10" using Suc.prems by simp
    ultimately have "length (decimal (n div 10)) \<le> Suc k" by (rule Suc.IH [rotated])
    then show ?thesis using False by (simp add: decimal.simps [of n])
  qed
qed

lemma js_rem_abs_bounds: "0 < b \<Longrightarrow> 0 \<le> \<bar>js_rem a b\<bar> \<and> \<bar>js_rem a b\<bar> < b"
  by (simp add: js_rem_def abs_mult abs_sgn_eq)


section \<open>Properties of generateTOTP\<close>

lemma fallback_code_length: "length (fallback_code now s) = 6"
proof -
  let ?v = "\<bar>js_rem (fallback_hash now s) 1000000\<bar>"
  have b: "0 \<le> ?v \<and> ?v < 1000000" by (rule js_rem_abs_bounds) simp
  then have "?v < 10 ^ Suc 5" by simp
  with b have "length (decimal ?v) \<le> Suc 5" by (intro decimal_length) simp_all
  then show ?thesis
    using b by (simp add: fallback_code_def String_padStart_def Number_toString_def)
qed

lemma fallback_code_digits: "list_all is_decimal_digit (fallback_code now s)"
proof -
  let ?v = "\<bar>js_rem (fallback_hash now s) 1000000\<bar>"
  have "list_all is_decimal_digit (decimal ?v)" by (rule decimal_digits) simp
  moreover have "is_decimal_digit CHR ''0''" by (simp add: is_decimal_digit_def)
  ultimately show ?thesis
    by (auto simp: fallback_code_def String_padStart_def Number_toString_def list_all_iff)
qed

lemma fallback_code_same_step:
  "n1 div 30000 = n2 div 30000 \<Longrightarrow> fallback_code n1 s = fallback_code n2 s"
  by (simp add: fallback_code_def fallback_hash_def)

lemma generateTOTP_caught:
  "lib s now = Inl e \<Longrightarrow> generateTOTP lib now s = Inr (fallback_code now s)"
  by (simp add: generateTOTP_def)


text \<open>The catch block run on concrete secrets and clock readings.\<close>

lemma fallback_code_bang_0: "fallback_code 1700000000000 ''!!!'' = ''532247''"
  by code_simp

lemma fallback_code_bang_1: "fallback_code 1700000030000 ''!!!'' = ''562038''"
  by code_simp

lemma fallback_code_base32_0: "fallback_code 1700000000000 ''JBSWY3DPEHPK3PXP'' = ''740961''"
  by code_simp

text \<open>
  C1, as amended. Where the TOTP computation of the library throws on a secret,
  generateTOTP reports no error: it returns the pseudo-code of its catch block, a string
  of exactly six decimal digits computed from the secret's characters and the 30-second
  step of the clock. The code has no CorruptCredential error.
\<close>

theorem generateTOTP_falls_back:
  "lib s now = Inl e \<Longrightarrow>
   generateTOTP lib now s = Inr (fallback_code now s) \<and>
   length (fallback_code now s) = 6 \<and>
   list_all is_decimal_digit (fallback_code now s)"
  by (simp add: generateTOTP_caught fallback_code_length fallback_code_digits)

theorem generateTOTP_falls_back_witness:
  "jsotp_throwing ''JBSWY3DPEHPK3PXP'' 1700000000000 = Inl (Error ''jsotp failed'') \<and>
   generateTOTP jsotp_throwing 1700000000000 ''JBSWY3DPEHPK3PXP'' = Inr ''740961'' \<and>
   length ''740961'' = 6 \<and> list_all is_decimal_digit ''740961''"
proof -
  have h: "jsotp_throwing ''JBSWY3DPEHPK3PXP'' 1700000000000 = Inl (Error ''jsotp failed'')"
    by (simp add: jsotp_throwing_def)
  show ?thesis
    using h generateTOTP_falls_back [of jsotp_throwing "''JBSWY3DPEHPK3PXP''" 1700000000000 "Error ''jsotp failed''"] by (simp add: fallback_code_base32_0)
qed

text \<open>
  C1 as stated fails: the library throws on the secret \<open>!!!\<close>, and generateTOTP returns
  the six digits \<open>532247\<close>, not an error.
\<close>

theorem generateTOTP_explicit_error_counterexample:
  "jsotp_throwing ''!!!'' 1700000000000 = Inl (Error ''jsotp failed'') \<and>
   generateTOTP jsotp_throwing 1700000000000 ''!!!'' = Inr ''532247''"
  by (simp add: jsotp_throwing_def generateTOTP_def fallback_code_bang_0)

text \<open>
  C2, as amended. generateTOTP takes the secret alone and reads the clock itself. Its
  result is determined by the secret, by what the library does at that reading, and by
  the 30-second step of the reading: two calls with the same secret whose readings fall
  in the same step, and on which the library behaves alike, return the same code.
\<close>

theorem generateTOTP_same_step:
  "n1 div 30000 = n2 div 30000 \<Longrightarrow> lib s n1 = lib s n2 \<Longrightarrow>
   generateTOTP lib n1 s = generateTOTP lib n2 s"
proof -
  assume step: "n1 div 30000 = n2 div 30000" and lib: "lib s n1 = lib s n2"
  have "fallback_code n1 s = fallback_code n2 s"
    using step by (rule fallback_code_same_step)
  with lib show ?thesis
    by (cases "lib s n2") (simp_all add: generateTOTP_def)
qed

theorem generateTOTP_same_step_witness:
  "(1700000010000 :: int) div 30000 = 1700000039999 div 30000 \<and>
   jsotp_throwing ''!!!'' 1700000010000 = jsotp_throwing ''!!!'' 1700000039999 \<and>
   generateTOTP jsotp_throwing 1700000010000 ''!!!'' =
   generateTOTP jsotp_throwing 1700000039999 ''!!!''"
proof -
  have h1: "(1700000010000 :: int) div 30000 = 1700000039999 div 30000" by simp
  have h2: "jsotp_throwing ''!!!'' 1700000010000 = jsotp_throwing ''!!!'' 1700000039999"
    by (simp add: jsotp_throwing_def)
  show ?thesis
    using h1 h2 generateTOTP_same_step [of 1700000010000 1700000039999 jsotp_throwing "''!!!''"] by simp
qed

text \<open>
  C2 as stated fails: the time is no argument of generateTOTP. Two calls with the same
  argument, the secret \<open>!!!\<close>, return different codes when the clock that the function
  reads has moved on by 30 seconds.
\<close>

theorem generateTOTP_reads_clock_counterexample:
  "generateTOTP jsotp_throwing 1700000000000 ''!!!'' = Inr ''532247'' \<and>
   generateTOTP jsotp_throwing 1700000030000 ''!!!'' = Inr ''562038''"
  by (simp add: jsotp_throwing_def generateTOTP_def fallback_code_bang_0 fallback_code_bang_1)

text \<open>
  C9. The entry point is total: for every library behaviour, clock reading and secret
  string, generateTOTP returns a string and raises nothing, since whatever the library
  throws is caught by the catch block, which itself cannot throw.
\<close>

theorem generateTOTP_total:
  "\<exists>code. generateTOTP lib now s = Inr code"
  by (cases "lib s now") (simp_all add: generateTOTP_def)

theorem generateTOTP_total_witness:
  "\<exists>code. generateTOTP jsotp_throwing 0 [] = Inr code"
  using generateTOTP_total [of jsotp_throwing 0 "[]"] by simp


section \<open>Properties of handleQRScan\<close>

lemma startsWith_nonempty: "String_startsWith qr ''otpauth://totp/'' \<Longrightarrow> qr \<noteq> []"
  by (auto simp: String_startsWith_def)

lemma handleQRScan_accepts:
  assumes "String_startsWith qr ''otpauth://totp/''"
    and "new_URL rt qr = Inr u"
    and "decodeURIComponent rt (pathname u) = Inr d"
    and "URLSearchParams_get (searchParams u) ''secret'' = Some sec"
    and "sec \<noteq> []"
  shows "handleQRScan rt now rx ry (Some qr) st =
         st\<lparr>accounts := accounts st @
              [\<lparr>account_id = Number_toString now,
                issuer = fst (resolve_names (URLSearchParams_get (searchParams u) ''issuer'')
                               (String_slice 1 d)),
                accountName = snd (resolve_names (URLSearchParams_get (searchParams u) ''issuer'')
                                    (String_slice 1 d)),
                secret = sec,
                tile_x = rx * 150 + 50,
                tile_y = ry * 400 + 150,
                tile_width = 180,
                tile_height = 100\<rparr>],
            showCamera := False\<rparr>"
  using assms startsWith_nonempty [OF assms(1)]
  by (simp add: handleQRScan_def scan_try_def Let_def)

lemma handleQRScan_no_secret:
  assumes "String_startsWith qr ''otpauth://totp/''"
    and "new_URL rt qr = Inr u"
    and "decodeURIComponent rt (pathname u) = Inr d"
    and "falsy (URLSearchParams_get (searchParams u) ''secret'')"
  shows "handleQRScan rt now rx ry (Some qr) st =
         Alert_alert ''Error'' ''QR code missing secret key'' st"
  using assms startsWith_nonempty [OF assms(1)]
  by (auto simp: handleQRScan_def scan_try_def Let_def falsy_def)


lemma handleQRScan_accounts_grow:
  "accounts (handleQRScan rt now rx ry ev st) = accounts st \<or>
   (\<exists>a. accounts (handleQRScan rt now rx ry ev st) = accounts st @ [a])"
  by (auto simp: handleQRScan_def scan_try_def Let_def Alert_alert_def
      split: option.splits sum.splits)


section \<open>The platform model on concrete strings\<close>

lemma whatwg_simps [simp]:
  "new_URL whatwg = new_URL_whatwg"
  "decodeURIComponent whatwg = decodeURIComponent_ascii"
  by (simp_all add: whatwg_def)

lemma url_not_base32:
  "new_URL_whatwg ''otpauth://totp/Foo:bar?secret=not-base32!'' =
   Inr \<lparr>pathname = ''/Foo:bar'', searchParams = [(''secret'', ''not-base32!'')]\<rparr>"
  by code_simp

lemma decode_Foo_bar: "decodeURIComponent_ascii ''/Foo:bar'' = Inr ''/Foo:bar''"
  by code_simp

lemma prefix_not_base32: "String_startsWith ''otpauth://totp/Foo:bar?secret=not-base32!'' ''otpauth://totp/''"
  by code_simp

text \<open>
  C3, as amended. The secret is not validated: for every URI with the
  \<open>otpauth://totp/\<close> prefix that the platform parses and whose \<open>secret\<close> parameter is
  present and not empty, whether or not it is Base32, the scan raises no alert and
  stores an account holding the parameter's text as it stands.
\<close>

theorem handleQRScan_stores_any_secret:
  assumes "String_startsWith qr ''otpauth://totp/''"
    and "new_URL rt qr = Inr u"
    and "decodeURIComponent rt (pathname u) = Inr d"
    and "URLSearchParams_get (searchParams u) ''secret'' = Some sec"
    and "sec \<noteq> []"
  shows "map secret (accounts (handleQRScan rt now rx ry (Some qr) st)) =
           map secret (accounts st) @ [sec] \<and>
         alerts (handleQRScan rt now rx ry (Some qr) st) = alerts st"
  by (simp add: handleQRScan_accepts [OF assms])

theorem handleQRScan_stores_any_secret_witness:
  "String_startsWith ''otpauth://totp/Foo:bar?secret=not-base32!'' ''otpauth://totp/'' \<and>
   new_URL whatwg ''otpauth://totp/Foo:bar?secret=not-base32!'' =
     Inr \<lparr>pathname = ''/Foo:bar'', searchParams = [(''secret'', ''not-base32!'')]\<rparr> \<and>
   decodeURIComponent whatwg ''/Foo:bar'' = Inr ''/Foo:bar'' \<and>
   map secret (accounts (handleQRScan whatwg 1700000000000 (1/2) (1/2)
       (Some ''otpauth://totp/Foo:bar?secret=not-base32!'') scanning)) = [''not-base32!''] \<and>
   alerts (handleQRScan whatwg 1700000000000 (1/2) (1/2)
       (Some ''otpauth://totp/Foo:bar?secret=not-base32!'') scanning) = []"
proof -
  let ?u = "\<lparr>pathname = ''/Foo:bar'', searchParams = [(''secret'', ''not-base32!'')]\<rparr>"
  have h1: "String_startsWith ''otpauth://totp/Foo:bar?secret=not-base32!'' ''otpauth://totp/''"
    by (rule prefix_not_base32)
  have h2: "new_URL whatwg ''otpauth://totp/Foo:bar?secret=not-base32!'' = Inr ?u"
    by (simp add: url_not_base32)
  have h3: "decodeURIComponent whatwg (pathname ?u) = Inr ''/Foo:bar''"
    by (simp add: decode_Foo_bar)
  have h4: "URLSearchParams_get (searchParams ?u) ''secret'' = Some ''not-base32!''"
    by (simp add: URLSearchParams_get_def)
  have h5: "''not-base32!'' \<noteq> []" by simp
  show ?thesis
    using h1 h2 h3 handleQRScan_stores_any_secret [OF h1 h2 h3 h4 h5, of 1700000000000 "1/2" "1/2" scanning]
    by (simp add: scanning_def)
qed

text \<open>
  C3 as stated fails: the secret \<open>!!!\<close> is not Base32, and the scan stores an account
  with it and raises no alert.
\<close>

theorem handleQRScan_invalid_secret_counterexample:
  "\<not> valid_Base32 ''!!!'' \<and>
   handleQRScan whatwg 1700000000000 (1/2) (1/2) (Some ''otpauth://totp/Foo:bar?secret=!!!'') scanning =
     \<lparr>accounts =
        [\<lparr>account_id = ''1700000000000'', issuer = ''Foo'', accountName = ''bar'', secret = ''!!!'',
          tile_x = 125, tile_y = 350, tile_width = 180, tile_height = 100\<rparr>],
      showCamera = False, alerts = []\<rparr>"
  by code_simp


lemma url_digits_8:
  "new_URL_whatwg ''otpauth://totp/Foo:bar?secret=JBSWY3DPEHPK3PXP&digits=8'' =
   Inr \<lparr>pathname = ''/Foo:bar'',
         searchParams = [(''secret'', ''JBSWY3DPEHPK3PXP''), (''digits'', ''8'')]\<rparr>"
  by code_simp

lemma url_digits_10:
  "new_URL_whatwg ''otpauth://totp/Foo:bar?secret=JBSWY3DPEHPK3PXP&digits=10'' =
   Inr \<lparr>pathname = ''/Foo:bar'',
         searchParams = [(''secret'', ''JBSWY3DPEHPK3PXP''), (''digits'', ''10'')]\<rparr>"
  by code_simp

lemma prefix_digits_8:
  "String_startsWith ''otpauth://totp/Foo:bar?secret=JBSWY3DPEHPK3PXP&digits=8'' ''otpauth://totp/''"
  by code_simp

lemma prefix_digits_10:
  "String_startsWith ''otpauth://totp/Foo:bar?secret=JBSWY3DPEHPK3PXP&digits=10'' ''otpauth://totp/''"
  by code_simp

lemma scan_digits_8:
  "handleQRScan whatwg 1700000000000 (1/2) (1/2)
     (Some ''otpauth://totp/Foo:bar?secret=JBSWY3DPEHPK3PXP&digits=8'') scanning =
   \<lparr>accounts =
      [\<lparr>account_id = ''1700000000000'', issuer = ''Foo'', accountName = ''bar'',
        secret = ''JBSWY3DPEHPK3PXP'',
        tile_x = 125, tile_y = 350, tile_width = 180, tile_height = 100\<rparr>],
    showCamera = False, alerts = []\<rparr>"
  by code_simp

text \<open>
  C4, as amended. The \<open>digits\<close> parameter is never read: two URIs with the
  \<open>otpauth://totp/\<close> prefix whose parsed forms agree on the path and on every query
  parameter but \<open>digits\<close> have the same outcome, the same stored account or the same
  alert. No default is applied, no value is stored, and there is no InvalidDigits
  error: \<open>digits=8\<close> and \<open>digits=10\<close> both succeed.
\<close>

theorem handleQRScan_ignores_digits:
  assumes "String_startsWith qr ''otpauth://totp/''"
    and "String_startsWith qr' ''otpauth://totp/''"
    and "new_URL rt qr = Inr u"
    and "new_URL rt qr' = Inr u'"
    and "pathname u = pathname u'"
    and "(URLSearchParams_get (searchParams u))(''digits'' := None) =
         (URLSearchParams_get (searchParams u'))(''digits'' := None)"
  shows "handleQRScan rt now rx ry (Some qr) st = handleQRScan rt now rx ry (Some qr') st"
proof -
  have i: "URLSearchParams_get (searchParams u) ''issuer'' =
           URLSearchParams_get (searchParams u') ''issuer''"
    using fun_cong [OF assms(6), of "''issuer''"] by simp
  have s: "URLSearchParams_get (searchParams u) ''secret'' =
           URLSearchParams_get (searchParams u') ''secret''"
    using fun_cong [OF assms(6), of "''secret''"] by simp
  have "scan_try rt now rx ry qr st = scan_try rt now rx ry qr' st"
    by (cases "decodeURIComponent rt (pathname u')")
      (simp_all add: scan_try_def assms(3,4,5) i s)
  then show ?thesis
    using assms(1,2) startsWith_nonempty [OF assms(1)] startsWith_nonempty [OF assms(2)]
    by (simp add: handleQRScan_def)
qed

theorem handleQRScan_ignores_digits_witness:
  "String_startsWith ''otpauth://totp/Foo:bar?secret=JBSWY3DPEHPK3PXP&digits=8'' ''otpauth://totp/'' \<and>
   String_startsWith ''otpauth://totp/Foo:bar?secret=JBSWY3DPEHPK3PXP&digits=10'' ''otpauth://totp/'' \<and>
   new_URL whatwg ''otpauth://totp/Foo:bar?secret=JBSWY3DPEHPK3PXP&digits=8'' =
     Inr \<lparr>pathname = ''/Foo:bar'',
           searchParams = [(''secret'', ''JBSWY3DPEHPK3PXP''), (''digits'', ''8'')]\<rparr> \<and>
   new_URL whatwg ''otpauth://totp/Foo:bar?secret=JBSWY3DPEHPK3PXP&digits=10'' =
     Inr \<lparr>pathname = ''/Foo:bar'',
           searchParams = [(''secret'', ''JBSWY3DPEHPK3PXP''), (''digits'', ''10'')]\<rparr> \<and>
   (URLSearchParams_get [(''secret'', ''JBSWY3DPEHPK3PXP''), (''digits'', ''8'')])(''digits'' := None) =
   (URLSearchParams_get [(''secret'', ''JBSWY3DPEHPK3PXP''), (''digits'', ''10'')])(''digits'' := None) \<and>
   handleQRScan whatwg 1700000000000 (1/2) (1/2)
     (Some ''otpauth://totp/Foo:bar?secret=JBSWY3DPEHPK3PXP&digits=10'') scanning =
   \<lparr>accounts =
      [\<lparr>account_id = ''1700000000000'', issuer = ''Foo'', accountName = ''bar'',
        secret = ''JBSWY3DPEHPK3PXP'',
        tile_x = 125, tile_y = 350, tile_width = 180, tile_height = 100\<rparr>],
    showCamera = False, alerts = []\<rparr>"
proof -
  let ?u = "\<lparr>pathname = ''/Foo:bar'',
             searchParams = [(''secret'', ''JBSWY3DPEHPK3PXP''), (''digits'', ''8'')]\<rparr>"
  let ?u' = "\<lparr>pathname = ''/Foo:bar'',
              searchParams = [(''secret'', ''JBSWY3DPEHPK3PXP''), (''digits'', ''10'')]\<rparr>"
  have h3: "new_URL whatwg ''otpauth://totp/Foo:bar?secret=JBSWY3DPEHPK3PXP&digits=8'' = Inr ?u"
    by (simp add: url_digits_8)
  have h4: "new_URL whatwg ''otpauth://totp/Foo:bar?secret=JBSWY3DPEHPK3PXP&digits=10'' = Inr ?u'"
    by (simp add: url_digits_10)
  have h5: "pathname ?u = pathname ?u'" by simp
  have h6: "(URLSearchParams_get (searchParams ?u))(''digits'' := None) =
            (URLSearchParams_get (searchParams ?u'))(''digits'' := None)"
    by (simp add: fun_eq_iff URLSearchParams_get_def)
  have "handleQRScan whatwg 1700000000000 (1/2) (1/2)
          (Some ''otpauth://totp/Foo:bar?secret=JBSWY3DPEHPK3PXP&digits=8'') scanning =
        handleQRScan whatwg 1700000000000 (1/2) (1/2)
          (Some ''otpauth://totp/Foo:bar?secret=JBSWY3DPEHPK3PXP&digits=10'') scanning"
    by (rule handleQRScan_ignores_digits [OF prefix_digits_8 prefix_digits_10 h3 h4 h5 h6])
  then show ?thesis
    using prefix_digits_8 prefix_digits_10 h3 h4 h6 by (simp add: scan_digits_8)
qed

text \<open>
  C4 as stated fails: a URI with \<open>digits=10\<close> is not rejected. The scan stores its
  account and raises no alert.
\<close>

theorem handleQRScan_digits_10_counterexample:
  "handleQRScan whatwg 1700000000000 (1/2) (1/2)
     (Some ''otpauth://totp/Acme:joe?secret=JBSWY3DPEHPK3PXP&digits=10'') scanning =
   \<lparr>accounts =
      [\<lparr>account_id = ''1700000000000'', issuer = ''Acme'', accountName = ''joe'',
        secret = ''JBSWY3DPEHPK3PXP'',
        tile_x = 125, tile_y = 350, tile_width = 180, tile_height = 100\<rparr>],
    showCamera = False, alerts = []\<rparr>"
  by code_simp

lemma url_no_secret:
  "new_URL_whatwg ''otpauth://totp/Foo:bar?issuer=Foo'' =
   Inr \<lparr>pathname = ''/Foo:bar'', searchParams = [(''issuer'', ''Foo'')]\<rparr>"
  by code_simp

lemma url_empty_secret:
  "new_URL_whatwg ''otpauth://totp/Foo:bar?secret=&issuer=Foo'' =
   Inr \<lparr>pathname = ''/Foo:bar'', searchParams = [(''secret'', []), (''issuer'', ''Foo'')]\<rparr>"
  by code_simp

lemma prefix_no_secret:
  "String_startsWith ''otpauth://totp/Foo:bar?issuer=Foo'' ''otpauth://totp/''"
  by code_simp

lemma prefix_empty_secret:
  "String_startsWith ''otpauth://totp/Foo:bar?secret=&issuer=Foo'' ''otpauth://totp/''"
  by code_simp

text \<open>
  C6. For every URI with the \<open>otpauth://totp/\<close> prefix that the platform parses and
  whose \<open>secret\<close> parameter is absent or empty, the scan ends with the alert
  \<open>QR code missing secret key\<close> and changes nothing else: the account list is as it
  was, so no credential is created in any form.
\<close>

theorem handleQRScan_missing_secret:
  assumes "String_startsWith qr ''otpauth://totp/''"
    and "new_URL rt qr = Inr u"
    and "decodeURIComponent rt (pathname u) = Inr d"
    and "falsy (URLSearchParams_get (searchParams u) ''secret'')"
  shows "handleQRScan rt now rx ry (Some qr) st =
           st\<lparr>alerts := alerts st @ [(''Error'', ''QR code missing secret key'')]\<rparr> \<and>
         accounts (handleQRScan rt now rx ry (Some qr) st) = accounts st"
  by (simp add: handleQRScan_no_secret [OF assms] Alert_alert_def)

theorem handleQRScan_missing_secret_witness:
  "String_startsWith ''otpauth://totp/Foo:bar?issuer=Foo'' ''otpauth://totp/'' \<and>
   new_URL whatwg ''otpauth://totp/Foo:bar?issuer=Foo'' =
     Inr \<lparr>pathname = ''/Foo:bar'', searchParams = [(''issuer'', ''Foo'')]\<rparr> \<and>
   decodeURIComponent whatwg ''/Foo:bar'' = Inr ''/Foo:bar'' \<and>
   falsy (URLSearchParams_get [(''issuer'', ''Foo'')] ''secret'') \<and>
   handleQRScan whatwg 1700000000000 (1/2) (1/2) (Some ''otpauth://totp/Foo:bar?issuer=Foo'') scanning =
     \<lparr>accounts = [], showCamera = True, alerts = [(''Error'', ''QR code missing secret key'')]\<rparr> \<and>
   String_startsWith ''otpauth://totp/Foo:bar?secret=&issuer=Foo'' ''otpauth://totp/'' \<and>
   new_URL whatwg ''otpauth://totp/Foo:bar?secret=&issuer=Foo'' =
     Inr \<lparr>pathname = ''/Foo:bar'', searchParams = [(''secret'', []), (''issuer'', ''Foo'')]\<rparr> \<and>
   falsy (URLSearchParams_get [(''secret'', []), (''issuer'', ''Foo'')] ''secret'') \<and>
   handleQRScan whatwg 1700000000000 (1/2) (1/2)
       (Some ''otpauth://totp/Foo:bar?secret=&issuer=Foo'') scanning =
     \<lparr>accounts = [], showCamera = True, alerts = [(''Error'', ''QR code missing secret key'')]\<rparr>"
proof -
  let ?u = "\<lparr>pathname = ''/Foo:bar'', searchParams = [(''issuer'', ''Foo'')]\<rparr>"
  let ?v = "\<lparr>pathname = ''/Foo:bar'', searchParams = [(''secret'', []), (''issuer'', ''Foo'')]\<rparr>"
  have u2: "new_URL whatwg ''otpauth://totp/Foo:bar?issuer=Foo'' = Inr ?u"
    by (simp add: url_no_secret)
  have u3: "decodeURIComponent whatwg (pathname ?u) = Inr ''/Foo:bar''"
    by (simp add: decode_Foo_bar)
  have u4: "falsy (URLSearchParams_get (searchParams ?u) ''secret'')"
    by (simp add: falsy_def URLSearchParams_get_def)
  have v2: "new_URL whatwg ''otpauth://totp/Foo:bar?secret=&issuer=Foo'' = Inr ?v"
    by (simp add: url_empty_secret)
  have v3: "decodeURIComponent whatwg (pathname ?v) = Inr ''/Foo:bar''"
    by (simp add: decode_Foo_bar)
  have v4: "falsy (URLSearchParams_get (searchParams ?v) ''secret'')"
    by (simp add: falsy_def URLSearchParams_get_def)
  show ?thesis
    using prefix_no_secret u2 u3 u4 prefix_empty_secret v2 v4
      handleQRScan_missing_secret [OF prefix_no_secret u2 u3 u4, of 1700000000000 "1/2" "1/2" scanning]
      handleQRScan_missing_secret [OF prefix_empty_secret v2 v3 v4, of 1700000000000 "1/2" "1/2" scanning]
    by (simp add: scanning_def)
qed

lemma handleQRScan_prefix_alert_differs:
  assumes "String_startsWith qr ''otpauth://totp/''"
  shows "alerts (handleQRScan rt now rx ry (Some qr) st) \<noteq>
         alerts st @ [(''Invalid QR Code'', ''Please scan a valid authenticator QR code'')]"
  using assms startsWith_nonempty [OF assms]
  by (auto simp: handleQRScan_def scan_try_def Alert_alert_def Let_def
      split: sum.splits option.splits)




text \<open>
  C5. The label is split with \<open>label.split(':', 2)\<close>, which keeps the first two pieces
  of the full split and drops the rest: the account name is the text between the first
  and the second colon, not the whole remainder after the first colon. On the label
  \<open>Example:alice:work\<close> the stored account name is \<open>alice\<close>, and \<open>:work\<close> is lost.
\<close>

theorem handleQRScan_second_colon_truncates:
  "handleQRScan whatwg 1700000000000 (1/2) (1/2)
     (Some ''otpauth://totp/Example:alice:work?secret=JBSWY3DPEHPK3PXP'') scanning =
   \<lparr>accounts =
      [\<lparr>account_id = ''1700000000000'', issuer = ''Example'', accountName = ''alice'',
        secret = ''JBSWY3DPEHPK3PXP'',
        tile_x = 125, tile_y = 350, tile_width = 180, tile_height = 100\<rparr>],
    showCamera = False, alerts = []\<rparr>"
  by code_simp

lemma url_sha1:
  "new_URL_whatwg
     ''otpauth://totp/Foo:bar?secret=JBSWY3DPEHPK3PXP&algorithm=SHA1&digits=6&period=30'' =
   Inr \<lparr>pathname = ''/Foo:bar'',
         searchParams = [(''secret'', ''JBSWY3DPEHPK3PXP''), (''algorithm'', ''SHA1''),
                         (''digits'', ''6''), (''period'', ''30'')]\<rparr>"
  by code_simp

lemma url_sha512:
  "new_URL_whatwg
     ''otpauth://totp/Acme:joe?secret=JBSWY3DPEHPK3PXP&algorithm=SHA512&digits=8&period=60'' =
   Inr \<lparr>pathname = ''/Acme:joe'',
         searchParams = [(''secret'', ''JBSWY3DPEHPK3PXP''), (''algorithm'', ''SHA512''),
                         (''digits'', ''8''), (''period'', ''60'')]\<rparr>"
  by code_simp

lemma prefix_sha1:
  "String_startsWith
     ''otpauth://totp/Foo:bar?secret=JBSWY3DPEHPK3PXP&algorithm=SHA1&digits=6&period=30''
     ''otpauth://totp/''"
  by code_simp

lemma prefix_sha512:
  "String_startsWith
     ''otpauth://totp/Acme:joe?secret=JBSWY3DPEHPK3PXP&algorithm=SHA512&digits=8&period=60''
     ''otpauth://totp/''"
  by code_simp

lemma decode_Acme_joe: "decodeURIComponent_ascii ''/Acme:joe'' = Inr ''/Acme:joe''"
  by code_simp

lemma names_Foo_bar: "resolve_names None ''Foo:bar'' = (''Foo'', ''bar'')"
  by code_simp

lemma scan_sha1:
  "handleQRScan whatwg 1700000000000 (1/2) (1/2)
     (Some ''otpauth://totp/Foo:bar?secret=JBSWY3DPEHPK3PXP&algorithm=SHA1&digits=6&period=30'')
     scanning =
   \<lparr>accounts =
      [\<lparr>account_id = ''1700000000000'', issuer = ''Foo'', accountName = ''bar'',
        secret = ''JBSWY3DPEHPK3PXP'',
        tile_x = 125, tile_y = 350, tile_width = 180, tile_height = 100\<rparr>],
    showCamera = False, alerts = []\<rparr>"
  by code_simp

lemma scan_sha512:
  "handleQRScan whatwg 1700000000000 (1/2) (1/2)
     (Some ''otpauth://totp/Acme:joe?secret=JBSWY3DPEHPK3PXP&algorithm=SHA512&digits=8&period=60'')
     scanning =
   \<lparr>accounts =
      [\<lparr>account_id = ''1700000000000'', issuer = ''Acme'', accountName = ''joe'',
        secret = ''JBSWY3DPEHPK3PXP'',
        tile_x = 125, tile_y = 350, tile_width = 180, tile_height = 100\<rparr>],
    showCamera = False, alerts = []\<rparr>"
  by code_simp

text \<open>
  C10. The stored account is built from the label, the \<open>issuer\<close> parameter and the
  \<open>secret\<close> parameter (with the clock reading and the random position); \<open>algorithm\<close>,
  \<open>digits\<close> and \<open>period\<close> are not read and the account has no field for them. So for
  any two accepted URIs whose \<open>secret\<close> parameters are equal, whatever else differs, the
  stored secrets are equal and the codes generated from the two accounts at the same
  clock reading are identical.
\<close>

theorem generated_code_depends_on_secret_alone:
  assumes "String_startsWith qr1 ''otpauth://totp/''"
    and "String_startsWith qr2 ''otpauth://totp/''"
    and "new_URL rt qr1 = Inr u1"
    and "new_URL rt qr2 = Inr u2"
    and "decodeURIComponent rt (pathname u1) = Inr d1"
    and "decodeURIComponent rt (pathname u2) = Inr d2"
    and "URLSearchParams_get (searchParams u1) ''secret'' = Some sec"
    and "URLSearchParams_get (searchParams u2) ''secret'' = Some sec"
    and "sec \<noteq> []"
  shows "last (accounts (handleQRScan rt now1 rx1 ry1 (Some qr1) st1)) =
           \<lparr>account_id = Number_toString now1,
            issuer = fst (resolve_names (URLSearchParams_get (searchParams u1) ''issuer'')
                           (String_slice 1 d1)),
            accountName = snd (resolve_names (URLSearchParams_get (searchParams u1) ''issuer'')
                                (String_slice 1 d1)),
            secret = sec,
            tile_x = rx1 * 150 + 50, tile_y = ry1 * 400 + 150,
            tile_width = 180, tile_height = 100\<rparr> \<and>
         secret (last (accounts (handleQRScan rt now2 rx2 ry2 (Some qr2) st2))) = sec \<and>
         generateTOTP lib t (secret (last (accounts (handleQRScan rt now1 rx1 ry1 (Some qr1) st1)))) =
         generateTOTP lib t (secret (last (accounts (handleQRScan rt now2 rx2 ry2 (Some qr2) st2))))"
  by (simp add: handleQRScan_accepts [OF assms(1,3,5,7,9)] handleQRScan_accepts [OF assms(2,4,6,8,9)])

theorem generated_code_depends_on_secret_alone_witness:
  "String_startsWith
     ''otpauth://totp/Foo:bar?secret=JBSWY3DPEHPK3PXP&algorithm=SHA1&digits=6&period=30''
     ''otpauth://totp/'' \<and>
   String_startsWith
     ''otpauth://totp/Acme:joe?secret=JBSWY3DPEHPK3PXP&algorithm=SHA512&digits=8&period=60''
     ''otpauth://totp/'' \<and>
   new_URL whatwg
     ''otpauth://totp/Foo:bar?secret=JBSWY3DPEHPK3PXP&algorithm=SHA1&digits=6&period=30'' =
     Inr \<lparr>pathname = ''/Foo:bar'',
           searchParams = [(''secret'', ''JBSWY3DPEHPK3PXP''), (''algorithm'', ''SHA1''),
                           (''digits'', ''6''), (''period'', ''30'')]\<rparr> \<and>
   new_URL whatwg
     ''otpauth://totp/Acme:joe?secret=JBSWY3DPEHPK3PXP&algorithm=SHA512&digits=8&period=60'' =
     Inr \<lparr>pathname = ''/Acme:joe'',
           searchParams = [(''secret'', ''JBSWY3DPEHPK3PXP''), (''algorithm'', ''SHA512''),
                           (''digits'', ''8''), (''period'', ''60'')]\<rparr> \<and>
   decodeURIComponent whatwg ''/Foo:bar'' = Inr ''/Foo:bar'' \<and>
   decodeURIComponent whatwg ''/Acme:joe'' = Inr ''/Acme:joe'' \<and>
   last (accounts (handleQRScan whatwg 1700000000000 (1/2) (1/2)
     (Some ''otpauth://totp/Foo:bar?secret=JBSWY3DPEHPK3PXP&algorithm=SHA1&digits=6&period=30'')
     scanning)) =
     \<lparr>account_id = ''1700000000000'', issuer = ''Foo'', accountName = ''bar'',
      secret = ''JBSWY3DPEHPK3PXP'',
      tile_x = 125, tile_y = 350, tile_width = 180, tile_height = 100\<rparr> \<and>
   generateTOTP jsotp_throwing 1700000000000 (secret (last (accounts
     (handleQRScan whatwg 1700000000000 (1/2) (1/2)
       (Some ''otpauth://totp/Foo:bar?secret=JBSWY3DPEHPK3PXP&algorithm=SHA1&digits=6&period=30'')
       scanning)))) =
   generateTOTP jsotp_throwing 1700000000000 (secret (last (accounts
     (handleQRScan whatwg 1700000060000 (1/4) (3/4)
       (Some ''otpauth://totp/Acme:joe?secret=JBSWY3DPEHPK3PXP&algorithm=SHA512&digits=8&period=60'')
       scanning))))"
proof -
  let ?u1 = "\<lparr>pathname = ''/Foo:bar'',
              searchParams = [(''secret'', ''JBSWY3DPEHPK3PXP''), (''algorithm'', ''SHA1''),
                              (''digits'', ''6''), (''period'', ''30'')]\<rparr>"
  let ?u2 = "\<lparr>pathname = ''/Acme:joe'',
              searchParams = [(''secret'', ''JBSWY3DPEHPK3PXP''), (''algorithm'', ''SHA512''),
                              (''digits'', ''8''), (''period'', ''60'')]\<rparr>"
  have h3: "new_URL whatwg
      ''otpauth://totp/Foo:bar?secret=JBSWY3DPEHPK3PXP&algorithm=SHA1&digits=6&period=30'' = Inr ?u1"
    by (simp add: url_sha1)
  have h4: "new_URL whatwg
      ''otpauth://totp/Acme:joe?secret=JBSWY3DPEHPK3PXP&algorithm=SHA512&digits=8&period=60'' = Inr ?u2"
    by (simp add: url_sha512)
  have h5: "decodeURIComponent whatwg (pathname ?u1) = Inr ''/Foo:bar''"
    by (simp add: decode_Foo_bar)
  have h6: "decodeURIComponent whatwg (pathname ?u2) = Inr ''/Acme:joe''"
    by (simp add: decode_Acme_joe)
  have h7: "URLSearchParams_get (searchParams ?u1) ''secret'' = Some ''JBSWY3DPEHPK3PXP''"
    by (simp add: URLSearchParams_get_def)
  have h8: "URLSearchParams_get (searchParams ?u2) ''secret'' = Some ''JBSWY3DPEHPK3PXP''"
    by (simp add: URLSearchParams_get_def)
  have h9: "''JBSWY3DPEHPK3PXP'' \<noteq> []" by simp
  have n: "Number_toString 1700000000000 = ''1700000000000''"
    by code_simp
  have i: "URLSearchParams_get [(''secret'', ''JBSWY3DPEHPK3PXP''), (''algorithm'', ''SHA1''),
             (''digits'', ''6''), (''period'', ''30'')] ''issuer'' = None"
    by (simp add: URLSearchParams_get_def)
  show ?thesis
    using prefix_sha1 prefix_sha512 h3 h4 h5 h6
      generated_code_depends_on_secret_alone [OF prefix_sha1 prefix_sha512 h3 h4 h5 h6 h7 h8 h9,
        of 1700000000000 "1/2" "1/2" scanning 1700000060000 "1/4" "3/4" scanning
           jsotp_throwing 1700000000000]
    by (simp add: n i String_slice_def names_Foo_bar)
qed









section \<open>Further properties of the label and of the rejections\<close>

text \<open>The example URI of the key URI format, with both a label issuer and an \<open>issuer\<close> parameter.\<close>

lemma scan_label_and_issuer_parameter:
  "handleQRScan whatwg 1700000000000 (1/2) (1/2)
     (Some ''otpauth://totp/Example:alice@example.com?secret=JBSWY3DPEHPK3PXP&issuer=Example'')
     scanning =
   \<lparr>accounts =
      [\<lparr>account_id = ''1700000000000'', issuer = ''Example'', accountName = ''alice@example.com'',
        secret = ''JBSWY3DPEHPK3PXP'',
        tile_x = 125, tile_y = 350, tile_width = 180, tile_height = 100\<rparr>],
    showCamera = False, alerts = []\<rparr>"
  by code_simp

lemma String_split_no_separator: "sep \<notin> set s \<Longrightarrow> String_split sep s = [s]"
  by (induction s) auto

lemma String_split_at_separator:
  "sep \<notin> set a \<Longrightarrow> String_split sep (a @ sep # r) = a # String_split sep r"
  by (induction a) auto

lemma String_split_two_or_more:
  "sep \<notin> set a \<Longrightarrow> sep \<notin> set b \<Longrightarrow>
   String_split_limit sep 2 (a @ sep # b) = [a, b] \<and>
   String_split_limit sep 2 (a @ sep # b @ sep # c) = [a, b]"
proof -
  assume a: "sep \<notin> set a" and b: "sep \<notin> set b"
  have "String_split sep (a @ sep # b) = [a, b]"
    by (simp add: String_split_at_separator [OF a] String_split_no_separator [OF b])
  moreover have "String_split sep (a @ sep # b @ sep # c) = a # b # String_split sep c"
    by (simp add: String_split_at_separator [OF a] String_split_at_separator [OF b])
  ultimately show ?thesis
    by (simp add: String_split_limit_def)
qed

text \<open>
  A label without a colon is the account name and, when the URI has no \<open>issuer\<close>
  parameter (or an empty one), the issuer as well.
\<close>

theorem resolve_names_without_colon:
  assumes "\<not> String_includes label CHR '':''" and "label \<noteq> []" and "falsy issuerParam"
  shows "resolve_names issuerParam label = (label, label)"
  using assms by (simp add: resolve_names_def or_else_def falsy_def Let_def)

theorem resolve_names_without_colon_witness:
  "\<not> String_includes ''SoloName'' CHR '':'' \<and> falsy None \<and>
   resolve_names None ''SoloName'' = (''SoloName'', ''SoloName'')"
proof -
  have h1: "\<not> String_includes ''SoloName'' CHR '':''" by code_simp
  have h2: "''SoloName'' \<noteq> []" by simp
  have h3: "falsy None" by (simp add: falsy_def)
  show ?thesis
    using h1 h3 resolve_names_without_colon [OF h1 h2 h3] by simp
qed

text \<open>
  A label with exactly one colon is split there: with no \<open>issuer\<close> parameter the
  issuer is the text before the colon and the account name is the whole text after it.
\<close>

theorem resolve_names_one_colon:
  assumes "CHR '':'' \<notin> set a" and "CHR '':'' \<notin> set b"
    and "a \<noteq> []" and "b \<noteq> []" and "falsy issuerParam"
  shows "resolve_names issuerParam (a @ CHR '':'' # b) = (a, b)"
proof -
  have "String_split_limit CHR '':'' 2 (a @ CHR '':'' # b) = [a, b]"
    using String_split_two_or_more [OF assms(1,2)] by simp
  then show ?thesis
    using assms(3,4,5)
    by (simp add: resolve_names_def String_includes_def or_else_def falsy_def element_def Let_def)
qed

theorem resolve_names_one_colon_witness:
  "CHR '':'' \<notin> set ''Example'' \<and> CHR '':'' \<notin> set ''alice@example.com'' \<and> falsy None \<and>
   resolve_names None ''Example:alice@example.com'' = (''Example'', ''alice@example.com'')"
proof -
  have h1: "CHR '':'' \<notin> set ''Example''" by simp
  have h2: "CHR '':'' \<notin> set ''alice@example.com''" by simp
  have h3: "''Example'' \<noteq> []" and h4: "''alice@example.com'' \<noteq> []" by simp_all
  have h5: "falsy None" by (simp add: falsy_def)
  show ?thesis
    using h1 h2 h5 resolve_names_one_colon [OF h1 h2 h3 h4 h5] by simp
qed

text \<open>
  With a second colon in the label, the account name is the text between the first
  two colons; what follows the second colon is dropped, whatever the \<open>issuer\<close>
  parameter.
\<close>

theorem resolve_names_second_colon:
  assumes "CHR '':'' \<notin> set a" and "CHR '':'' \<notin> set b" and "b \<noteq> []"
  shows "snd (resolve_names issuerParam (a @ CHR '':'' # b @ CHR '':'' # c)) = b"
proof -
  have "String_split_limit CHR '':'' 2 (a @ CHR '':'' # b @ CHR '':'' # c) = [a, b]"
    using String_split_two_or_more [OF assms(1,2)] by simp
  then show ?thesis
    using assms(3)
    by (simp add: resolve_names_def String_includes_def or_else_def falsy_def element_def Let_def)
qed

theorem resolve_names_second_colon_witness:
  "CHR '':'' \<notin> set ''Example'' \<and> CHR '':'' \<notin> set ''alice'' \<and>
   snd (resolve_names None ''Example:alice:work'') = ''alice''"
proof -
  have h1: "CHR '':'' \<notin> set ''Example''" by simp
  have h2: "CHR '':'' \<notin> set ''alice''" by simp
  have h3: "''alice'' \<noteq> []" by simp
  show ?thesis
    using h1 h2 resolve_names_second_colon [OF h1 h2 h3, of None "''work''"] by simp
qed

text \<open>
  When \<open>new URL\<close> or \<open>decodeURIComponent\<close> throws on a string with the
  \<open>otpauth://totp/\<close> prefix, the scan ends with the alert \<open>Invalid QR code format\<close> and
  changes nothing else.
\<close>

theorem handleQRScan_malformed:
  assumes "String_startsWith qr ''otpauth://totp/''"
    and "new_URL rt qr = Inl e \<or>
         (\<exists>u e'. new_URL rt qr = Inr u \<and> decodeURIComponent rt (pathname u) = Inl e')"
  shows "handleQRScan rt now rx ry (Some qr) st =
         st\<lparr>alerts := alerts st @ [(''Error'', ''Invalid QR code format'')]\<rparr>"
  using assms startsWith_nonempty [OF assms(1)]
  by (auto simp: handleQRScan_def scan_try_def Alert_alert_def)

theorem handleQRScan_malformed_witness:
  "String_startsWith ''otpauth://totp/%zz?secret=JBSWY3DPEHPK3PXP'' ''otpauth://totp/'' \<and>
   new_URL whatwg ''otpauth://totp/%zz?secret=JBSWY3DPEHPK3PXP'' =
     Inr \<lparr>pathname = ''/%zz'', searchParams = [(''secret'', ''JBSWY3DPEHPK3PXP'')]\<rparr> \<and>
   decodeURIComponent whatwg ''/%zz'' = Inl (URIError ''URI malformed'') \<and>
   handleQRScan whatwg 1700000000000 (1/2) (1/2)
       (Some ''otpauth://totp/%zz?secret=JBSWY3DPEHPK3PXP'') scanning =
     \<lparr>accounts = [], showCamera = True, alerts = [(''Error'', ''Invalid QR code format'')]\<rparr>"
proof -
  let ?u = "\<lparr>pathname = ''/%zz'', searchParams = [(''secret'', ''JBSWY3DPEHPK3PXP'')]\<rparr>"
  have h1: "String_startsWith ''otpauth://totp/%zz?secret=JBSWY3DPEHPK3PXP'' ''otpauth://totp/''"
    by code_simp
  have h2: "new_URL whatwg ''otpauth://totp/%zz?secret=JBSWY3DPEHPK3PXP'' = Inr ?u"
    unfolding whatwg_simps by code_simp
  have h3: "decodeURIComponent whatwg ''/%zz'' = Inl (URIError ''URI malformed'')"
    unfolding whatwg_simps by code_simp
  have h4: "new_URL whatwg ''otpauth://totp/%zz?secret=JBSWY3DPEHPK3PXP'' = Inl (Error []) \<or>
      (\<exists>u e'. new_URL whatwg ''otpauth://totp/%zz?secret=JBSWY3DPEHPK3PXP'' = Inr u \<and>
         decodeURIComponent whatwg (pathname u) = Inl e')"
    using h2 h3 by simp
  show ?thesis
    using h1 h2 h3 handleQRScan_malformed [OF h1 h4, of 1700000000000 "1/2" "1/2" scanning]
    by (simp add: scanning_def)
qed

text \<open>
  A scan leaves the account list as it was or appends exactly one account; it never
  removes or rewrites a stored account.
\<close>

theorem handleQRScan_appends_at_most_one:
  "accounts (handleQRScan rt now rx ry ev st) = accounts st \<or>
   (\<exists>a. accounts (handleQRScan rt now rx ry ev st) = accounts st @ [a])"
  by (rule handleQRScan_accounts_grow)

text \<open>
  At any clock reading from the epoch on, the seconds left in the current 30-second
  step are between 1 and 30.
\<close>

theorem getTOTPTimeLeft_range:
  assumes "0 \<le> now"
  shows "1 \<le> getTOTPTimeLeft now \<and> getTOTPTimeLeft now \<le> 30"
proof -
  have "0 \<le> now div 1000" using assms by simp
  then have "js_rem (now div 1000) 30 = (now div 1000) mod 30"
    by (cases "now div 1000 = 0") (simp_all add: js_rem_def)
  then show ?thesis
    by (simp add: getTOTPTimeLeft_def)
qed

theorem getTOTPTimeLeft_range_witness:
  "(0 :: int) \<le> 1700000000000 \<and> getTOTPTimeLeft 1700000000000 = 10"
proof -
  have h: "(0 :: int) \<le> 1700000000000" by simp
  have "getTOTPTimeLeft 1700000000000 = 10" by code_simp
  then show ?thesis
    using h getTOTPTimeLeft_range [OF h] by simp
qed

end
